theory Spec2Isabelle
  imports Main "HOL-Library.Sublist" "HOL-Library.Char_ord" "HOL-Library.List_Lexorder"
begin

section \<open>Data model\<close>

text \<open>
  The service is an Express application over two SQLite tables, \<open>api_keys\<close> and
  \<open>usage_records\<close>. Request and response bodies are JSON values.
\<close>

datatype json =
    JNull
  | JBool bool
  | JNum int
  | JStr string
  | JArr "json list"
  | JObj "(string \<times> json) list"



text \<open>
  A row of \<open>api_keys\<close>. The column \<open>scopes\<close> holds the text \<open>JSON.stringify(scopes)\<close> of an
  array of strings and is read back with \<open>JSON.parse\<close>; the row carries the array itself.
  Timestamps are the texts the code stores (\<open>new Date().toISOString()\<close>), nullable columns
  are options.
\<close>

record api_key =
  ak_id :: nat
  ak_key_hash :: string
  ak_salt :: string
  ak_status :: string
  ak_expiration :: "string option"
  ak_created_at :: string
  ak_updated_at :: string
  ak_deleted_at :: "string option"
  ak_scopes :: "json list"
  ak_owner :: string

text \<open>
  A row of \<open>usage_records\<close>. The column \<open>metadata\<close> holds \<open>JSON.stringify(metadata)\<close>;
  the row carries the JSON value.
\<close>

record usage_record =
  ur_id :: nat
  ur_api_key_id :: "nat option"
  ur_timestamp :: string
  ur_action :: string
  ur_endpoint :: string
  ur_ip :: string
  ur_user_agent :: string
  ur_metadata :: "json option"

text \<open>
  The state: both tables in insertion order, the AUTOINCREMENT counter of each, and the
  lines written with \<open>console.error\<close> (the operational log).
\<close>

record state =
  api_keys :: "api_key list"
  api_keys_seq :: nat
  usage_records :: "usage_record list"
  usage_records_seq :: nat
  console_error :: "string list"

record response =
  res_status :: nat
  res_body :: json

definition json_error :: "nat \<Rightarrow> string \<Rightarrow> response" where
  "json_error code msg = \<lparr>res_status = code, res_body = JObj [(''error'', JStr msg)]\<rparr>"

definition json_ok :: "json \<Rightarrow> response" where
  "json_ok b = \<lparr>res_status = 200, res_body = b\<rparr>"

section \<open>Scope format\<close>

text \<open>\<open>String.prototype.includes\<close>: the argument occurs somewhere as a substring.\<close>

fun js_includes :: "string \<Rightarrow> string \<Rightarrow> bool" where
  "js_includes [] t = (t = [])"
| "js_includes (c # s) t = (prefix t (c # s) \<or> js_includes s t)"

text \<open>The check of \<open>POST /validate\<close> on its scope argument: \<open>scope.includes(':')\<close>.\<close>

definition scope_includes_colon :: "string \<Rightarrow> bool" where
  "scope_includes_colon s = js_includes s '':''"

text \<open>
  The check of \<open>POST /api-keys\<close> on an element of the scopes array:
  \<open>typeof s === 'string' && s.includes(':')\<close>.
\<close>

fun scope_element_ok :: "json \<Rightarrow> bool" where
  "scope_element_ok (JStr s) = js_includes s '':''"
| "scope_element_ok _ = False"

text \<open>
  The specification's \<open>isWellFormed\<close>, in its own words: the string contains at least one
  \<open>:\<close> separator, and the part before the first \<open>:\<close> and the part after it are both
  non-empty.
\<close>

definition isWellFormed_spec :: "string \<Rightarrow> bool" where
  "isWellFormed_spec s =
     (CHR '':'' \<in> set s
      \<and> takeWhile (\<lambda>c. c \<noteq> CHR '':'') s \<noteq> []
      \<and> drop 1 (dropWhile (\<lambda>c. c \<noteq> CHR '':'') s) \<noteq> [])"

section \<open>External functions\<close>

text \<open>
  Two functions of the runtime are parameters of the model. \<open>scrypt key salt\<close> stands for
  \<open>crypto.scryptSync(key, salt, 64, {N: 16384, r: 8, p: 1}).toString('hex')\<close>, the same
  call at creation and at validation. \<open>parseDate text\<close> stands for the instant of
  \<open>new Date(text)\<close> in milliseconds, \<open>None\<close> for an Invalid Date (whose comparisons are
  all false).

  Request fields are taken at the types the interface gives them: a string field is
  \<open>None\<close> when it is missing from the body. \<open>falsy\<close> is JavaScript's \<open>!x\<close> on such a
  field. The validation handler on fields of any JSON type is \<open>validate_request\<close>, further
  down.
\<close>

definition falsy :: "string option \<Rightarrow> bool" where
  "falsy x = (case x of None \<Rightarrow> True | Some v \<Rightarrow> v = [])"

definition str :: "string option \<Rightarrow> string" where
  "str x = (case x of None \<Rightarrow> [] | Some v \<Rightarrow> v)"

definition or_null :: "string option \<Rightarrow> string option" where
  "or_null x = (if falsy x then None else x)"

definition json_nullable :: "string option \<Rightarrow> json" where
  "json_nullable x = (case x of None \<Rightarrow> JNull | Some v \<Rightarrow> JStr v)"

text \<open>The texts of the error responses that contain a double quote.\<close>

definition msg_scopes_format :: string where
  \<open>msg_scopes_format =
     ''Scopes must be an array of strings in format "resource:action" (e.g., "orders:read")''\<close>

definition msg_only_revoked :: string where
  \<open>msg_only_revoked = ''Only status "revoked" is allowed for updates''\<close>

definition msg_scope_format :: string where
  \<open>msg_scope_format = ''Scope must be in format "resource:action"''\<close>

section \<open>The store's statements\<close>

text \<open>
  \<open>UPDATE t SET ... WHERE ...\<close>: every row the condition selects is rewritten; the
  statement reports the number of rows selected (\<open>info.changes\<close>).
\<close>

definition sql_update :: "('r \<Rightarrow> bool) \<Rightarrow> ('r \<Rightarrow> 'r) \<Rightarrow> 'r list \<Rightarrow> 'r list \<times> nat" where
  "sql_update cond upd rows =
     (map (\<lambda>r. if cond r then upd r else r) rows, length (filter cond rows))"

text \<open>
  \<open>ORDER BY col DESC\<close> on a text column: the greatest key first. SQL leaves the order of
  rows with equal keys open; SQLite returns them in insertion order, and so does this.
\<close>

definition order_by_desc :: "('r \<Rightarrow> string) \<Rightarrow> 'r list \<Rightarrow> 'r list" where
  "order_by_desc col rows = rev (sort_key col (rev rows))"

text \<open>\<open>usage_records ur LEFT JOIN api_keys ak ON ur.api_key_id = ak.id\<close>.\<close>

definition left_join :: "usage_record list \<Rightarrow> api_key list \<Rightarrow> (usage_record \<times> api_key option) list" where
  "left_join urs aks =
     concat (map (\<lambda>ur.
       (case filter (\<lambda>ak. ur_api_key_id ur = Some (ak_id ak)) aks of
          [] \<Rightarrow> [(ur, None)]
        | ms \<Rightarrow> map (\<lambda>ak. (ur, Some ak)) ms)) urs)"

section \<open>Usage recorder\<close>

text \<open>
  \<open>logUsage(apiKeyId, action, endpoint, ip, userAgent, metadata)\<close>: one INSERT into
  \<open>usage_records\<close> inside a \<open>try\<close>. When the statement throws (\<open>fails\<close>), the \<open>catch\<close>
  writes a line to \<open>console.error\<close> and the function returns normally. The store assigns
  the row's id and its timestamp (\<open>CURRENT_TIMESTAMP\<close>, here \<open>ts\<close>).
\<close>

definition logUsage ::
  "bool \<Rightarrow> string \<Rightarrow> nat option \<Rightarrow> string \<Rightarrow> string \<Rightarrow> string \<Rightarrow> string \<Rightarrow> json \<Rightarrow> state \<Rightarrow> state"
where
  "logUsage fails ts apiKeyId action endpoint ip userAgent metadata s =
     (if fails then s\<lparr>console_error := console_error s @ [''Error logging usage:'']\<rparr>
      else s\<lparr>usage_records := usage_records s @
                 [\<lparr>ur_id = Suc (usage_records_seq s), ur_api_key_id = apiKeyId,
                   ur_timestamp = ts, ur_action = action, ur_endpoint = endpoint,
                   ur_ip = ip, ur_user_agent = userAgent, ur_metadata = Some metadata\<rparr>],
              usage_records_seq := Suc (usage_records_seq s)\<rparr>)"

section \<open>Key lifecycle handlers\<close>

text \<open>
  Every handler runs inside a \<open>try\<close> whose \<open>catch\<close> answers 500 with a fixed message. That
  path is entered only when the store or the runtime throws; the handlers are modelled
  where their own statements succeed. The one failure kept is the INSERT of \<open>logUsage\<close>,
  which has a \<open>catch\<close> of its own.
\<close>

record create_body =
  owner :: "string option"
  scopes :: "json option"
  expiration :: "string option"

text \<open>
  \<open>const { scopes = [] } = req.body\<close> followed by
  \<open>!Array.isArray(scopes) || !scopes.every(s => typeof s === 'string' && s.includes(':'))\<close>:
  the accepted array, or \<open>None\<close> when the request is refused.
\<close>

definition accepted_scopes :: "json option \<Rightarrow> json list option" where
  "accepted_scopes x =
     (case x of
        None \<Rightarrow> Some []
      | Some (JArr xs) \<Rightarrow> if list_all scope_element_ok xs then Some xs else None
      | Some _ \<Rightarrow> None)"

text \<open>
  \<open>POST /api-keys\<close>. \<open>key\<close> and \<open>salt\<close> are the hex texts of \<open>crypto.randomBytes(32)\<close> and
  \<open>crypto.randomBytes(16)\<close>, \<open>now\<close> is \<open>new Date().toISOString()\<close>.
\<close>

definition create_api_key ::
  "(string \<Rightarrow> string \<Rightarrow> string) \<Rightarrow> string \<Rightarrow> string \<Rightarrow> string \<Rightarrow> create_body \<Rightarrow> state
   \<Rightarrow> response \<times> state"
where
  "create_api_key scrypt key salt now body s =
     (if falsy (owner body) then (json_error 400 ''Owner is required'', s)
      else case accepted_scopes (scopes body) of
        None \<Rightarrow>
          (json_error 400 msg_scopes_format, s)
      | Some scs \<Rightarrow>
          let keyHash = scrypt key salt;
              lastInsertRowid = Suc (api_keys_seq s);
              row = \<lparr>ak_id = lastInsertRowid, ak_key_hash = keyHash, ak_salt = salt,
                     ak_status = ''active'', ak_expiration = or_null (expiration body),
                     ak_created_at = now, ak_updated_at = now, ak_deleted_at = None,
                     ak_scopes = scs, ak_owner = str (owner body)\<rparr>
          in (\<lparr>res_status = 201,
               res_body = JObj
                 [(''id'', JNum (int lastInsertRowid)),
                  (''key'', JStr key),
                  (''owner'', JStr (str (owner body))),
                  (''scopes'', JArr scs),
                  (''expiration'', json_nullable (or_null (expiration body))),
                  (''status'', JStr ''active''),
                  (''created_at'', JStr now)]\<rparr>,
              s\<lparr>api_keys := api_keys s @ [row], api_keys_seq := lastInsertRowid\<rparr>))"




text \<open>
  \<open>PATCH /api-keys/:id\<close>. The statement is
  \<open>UPDATE api_keys SET status = ?, updated_at = ? WHERE id = ?\<close>. The route parameter is a
  text; the model takes it to be the decimal numeral of a number \<open>i\<close>, for which the
  comparison \<open>id = ?\<close> of the store and the \<open>parseInt(id)\<close> of the response both give \<open>i\<close>.
  For other texts the two can differ (\<open>1e1\<close> selects row 10 and is echoed as 1); the model
  does not cover them.
\<close>

definition revoke_api_key :: "string \<Rightarrow> nat \<Rightarrow> string option \<Rightarrow> state \<Rightarrow> response \<times> state" where
  "revoke_api_key now i status s =
     (if status \<noteq> Some ''revoked'' then
        (json_error 400 msg_only_revoked, s)
      else
        let (rows, changes) =
              sql_update (\<lambda>k. ak_id k = i)
                (\<lambda>k. k\<lparr>ak_status := ''revoked'', ak_updated_at := now\<rparr>) (api_keys s);
            s' = s\<lparr>api_keys := rows\<rparr>
        in if changes = 0 then (json_error 404 ''API key not found'', s')
           else (json_ok (JObj [(''id'', JNum (int i)), (''status'', JStr ''revoked''),
                                (''updated_at'', JStr now)]), s'))"

text \<open>
  \<open>DELETE /api-keys/:id\<close>. The statement is
  \<open>UPDATE api_keys SET deleted_at = ?, updated_at = ? WHERE id = ? AND deleted_at IS NULL\<close>.
  The route parameter is taken as for revocation.
\<close>

definition delete_api_key :: "string \<Rightarrow> nat \<Rightarrow> state \<Rightarrow> response \<times> state" where
  "delete_api_key now i s =
     (let (rows, changes) =
            sql_update (\<lambda>k. ak_id k = i \<and> ak_deleted_at k = None)
              (\<lambda>k. k\<lparr>ak_deleted_at := Some now, ak_updated_at := now\<rparr>) (api_keys s);
          s' = s\<lparr>api_keys := rows\<rparr>
      in if changes = 0 then (json_error 404 ''API key not found or already deleted'', s')
         else (json_ok (JObj [(''id'', JNum (int i)), (''deleted_at'', JStr now)]), s'))"

text \<open>
  \<open>GET /api-keys/:id/usage\<close>: the usage rows of the id, each joined with its key row,
  newest first.
\<close>

definition usage_rows :: "nat \<Rightarrow> state \<Rightarrow> (usage_record \<times> api_key option) list" where
  "usage_rows i s =
     order_by_desc (\<lambda>(ur, ak). ur_timestamp ur)
       (filter (\<lambda>(ur, ak). ur_api_key_id ur = Some i)
          (left_join (usage_records s) (api_keys s)))"

definition key_info_fields :: "api_key option \<Rightarrow> (string \<times> json) list" where
  "key_info_fields ak =
     (case ak of
        None \<Rightarrow> [(''owner'', JNull), (''status'', JNull), (''deleted_at'', JNull)]
      | Some k \<Rightarrow> [(''owner'', JStr (ak_owner k)), (''status'', JStr (ak_status k)),
                   (''deleted_at'', json_nullable (ak_deleted_at k))])"

definition usage_json :: "usage_record \<times> api_key option \<Rightarrow> json" where
  "usage_json row =
     (case row of (ur, ak) \<Rightarrow>
        JObj ([(''id'', JNum (int (ur_id ur))),
               (''timestamp'', JStr (ur_timestamp ur)),
               (''action'', JStr (ur_action ur)),
               (''endpoint'', JStr (ur_endpoint ur)),
               (''ip'', JStr (ur_ip ur)),
               (''user_agent'', JStr (ur_user_agent ur)),
               (''metadata'', (case ur_metadata ur of None \<Rightarrow> JObj [] | Some m \<Rightarrow> m))]
              @ key_info_fields ak))"

definition usage_api_key :: "nat \<Rightarrow> state \<Rightarrow> response" where
  "usage_api_key i s =
     (let records = usage_rows i s
      in json_ok (JObj
           [(''keyId'', JNum (int i)),
            (''totalRequests'', JNum (int (length records))),
            (''keyInfo'', (case records of [] \<Rightarrow> JNull | (ur, ak) # _ \<Rightarrow> JObj (key_info_fields ak))),
            (''records'', JArr (map usage_json records))]))"

section \<open>Validation engine\<close>

record validate_body =
  apiKey :: "string option"
  scope :: "string option"
  service :: "string option"

text \<open>
  What a validation request reads besides its body and the store: the caller's address
  and user agent, the clock (\<open>new Date()\<close> at the expiration check, in milliseconds, and
  \<open>new Date().toISOString()\<close> in the success response), the store's \<open>CURRENT_TIMESTAMP\<close>,
  and whether the store refuses the usage INSERT.
\<close>

record validate_env =
  req_ip :: string
  req_user_agent :: string
  date_now :: int
  date_iso :: string
  db_timestamp :: string
  usage_insert_fails :: bool

text \<open>The candidate rows: \<open>SELECT ... FROM api_keys WHERE deleted_at IS NULL\<close>.\<close>

definition candidates :: "state \<Rightarrow> api_key list" where
  "candidates s = filter (\<lambda>k. ak_deleted_at k = None) (api_keys s)"

text \<open>The loop over the candidate rows, leaving at the first match.\<close>

fun findKey :: "(string \<Rightarrow> string \<Rightarrow> string) \<Rightarrow> string \<Rightarrow> api_key list \<Rightarrow> api_key option" where
  "findKey scrypt presented [] = None"
| "findKey scrypt presented (key # keys) =
     (if scrypt presented (ak_salt key) = ak_key_hash key then Some key
      else findKey scrypt presented keys)"

text \<open>\<open>keyData.expiration && new Date(keyData.expiration) < new Date()\<close>.\<close>

definition expiration_passed :: "(string \<Rightarrow> int option) \<Rightarrow> int \<Rightarrow> string option \<Rightarrow> bool" where
  "expiration_passed parseDate now e =
     (\<not> falsy e \<and> (case parseDate (str e) of None \<Rightarrow> False | Some t \<Rightarrow> t < now))"

definition usage_metadata :: "string \<Rightarrow> string \<Rightarrow> string \<Rightarrow> json" where
  "usage_metadata sv sc result =
     JObj [(''service'', JStr sv), (''scope'', JStr sc), (''result'', JStr result)]"

definition denied :: "string \<Rightarrow> response" where
  "denied why = json_ok (JObj [(''allowed'', JBool False), (''reason'', JStr why)])"

definition validate_log :: "validate_env \<Rightarrow> nat option \<Rightarrow> json \<Rightarrow> state \<Rightarrow> state" where
  "validate_log env apiKeyId metadata s =
     logUsage (usage_insert_fails env) (db_timestamp env) apiKeyId ''validate'' ''/validate''
       (req_ip env) (req_user_agent env) metadata s"

text \<open>The values of \<open>result\<close> in the metadata of a usage row written by validation.\<close>

definition usage_results :: "string list" where
  "usage_results = [''invalid_key'', ''revoked'', ''expired'', ''insufficient_scope'', ''allowed'']"

text \<open>\<open>POST /validate\<close>.\<close>

definition validate ::
  "(string \<Rightarrow> string \<Rightarrow> string) \<Rightarrow> (string \<Rightarrow> int option) \<Rightarrow> validate_env \<Rightarrow> validate_body \<Rightarrow> state
   \<Rightarrow> response \<times> state"
where
  "validate scrypt parseDate env body s =
     (if falsy (apiKey body) \<or> falsy (scope body) \<or> falsy (service body) then
        (json_error 400 ''apiKey, scope, and service are required'', s)
      else if \<not> scope_includes_colon (str (scope body)) then
        (json_error 400 msg_scope_format, s)
      else
        let sc = str (scope body); sv = str (service body);
            keys = candidates s
        in case findKey scrypt (str (apiKey body)) keys of
             None \<Rightarrow>
               (denied ''Invalid API key'',
                validate_log env None (usage_metadata sv sc ''invalid_key'') s)
           | Some keyData \<Rightarrow>
               if ak_status keyData \<noteq> ''active'' then
                 (denied ''API key is revoked'',
                  validate_log env (Some (ak_id keyData)) (usage_metadata sv sc ''revoked'') s)
               else if expiration_passed parseDate (date_now env) (ak_expiration keyData) then
                 (denied ''API key has expired'',
                  validate_log env (Some (ak_id keyData)) (usage_metadata sv sc ''expired'') s)
               else if JStr sc \<notin> set (ak_scopes keyData) then
                 (denied ''Insufficient scope'',
                  validate_log env (Some (ak_id keyData))
                    (usage_metadata sv sc ''insufficient_scope'') s)
               else
                 (json_ok (JObj
                    [(''allowed'', JBool True),
                     (''metadata'', JObj
                        [(''keyId'', JNum (int (ak_id keyData))),
                         (''owner'', JStr (ak_owner keyData)),
                         (''scopes'', JArr (ak_scopes keyData)),
                         (''service'', JStr sv),
                         (''validatedAt'', JStr (date_iso env))])]),
                  validate_log env (Some (ak_id keyData)) (usage_metadata sv sc ''allowed'') s))"

text \<open>
  A row with the expiration set to NULL when its text is not a date \<open>new Date\<close> can read:
  the store as it would be had those keys been issued without an expiration.
\<close>

definition drop_unparsed_expiration :: "(string \<Rightarrow> int option) \<Rightarrow> api_key \<Rightarrow> api_key" where
  "drop_unparsed_expiration parseDate k =
     (if parseDate (str (ak_expiration k)) = None then k\<lparr>ak_expiration := None\<rparr> else k)"

section \<open>Validation over arbitrary JSON fields\<close>

text \<open>
  \<open>express.json()\<close> hands the handler whatever JSON values the body has for \<open>apiKey\<close>,
  \<open>scope\<close> and \<open>service\<close>. \<open>validate\<close> above is the handler on string fields; this is the
  handler on any fields of a body that is a JSON object. The differences are in what
  JavaScript does with a value that is not a string.
\<close>

record raw_validate_body =
  raw_apiKey :: "json option"
  raw_scope :: "json option"
  raw_service :: "json option"

text \<open>\<open>!x\<close> on a field: missing, \<open>null\<close>, \<open>false\<close>, \<open>0\<close> and the empty string are falsy.\<close>

definition js_falsy :: "json option \<Rightarrow> bool" where
  "js_falsy x =
     (case x of
        None \<Rightarrow> True
      | Some JNull \<Rightarrow> True
      | Some (JBool b) \<Rightarrow> \<not> b
      | Some (JNum n) \<Rightarrow> n = 0
      | Some (JStr v) \<Rightarrow> v = []
      | Some (JArr xs) \<Rightarrow> False
      | Some (JObj members) \<Rightarrow> False)"

definition json_or_null :: "json option \<Rightarrow> json" where
  "json_or_null x = (case x of None \<Rightarrow> JNull | Some v \<Rightarrow> v)"

text \<open>
  \<open>scope.includes(':')\<close>: a substring test on a string, a membership test on an array, and
  a TypeError (\<open>None\<close>) on any other truthy value, which has no callable \<open>includes\<close>.
\<close>

fun includes_colon_call :: "json \<Rightarrow> bool option" where
  "includes_colon_call (JStr v) = Some (js_includes v '':'')"
| "includes_colon_call (JArr xs) = Some (JStr '':'' \<in> set xs)"
| "includes_colon_call _ = None"

text \<open>
  \<open>scopes.includes(scope)\<close> on the stored array: equality of primitives; an array or
  object parsed from the request is equal to no element.
\<close>

fun array_includes :: "json list \<Rightarrow> json \<Rightarrow> bool" where
  "array_includes xs (JArr ys) = False"
| "array_includes xs (JObj members) = False"
| "array_includes xs v = (v \<in> set xs)"

text \<open>
  The handler's \<open>catch\<close>: a line on \<open>console.error\<close> and the answer 500. It is reached
  when \<open>scope.includes\<close> is not callable, and when \<open>crypto.scryptSync\<close> is given a key that
  is not a string, which happens at the first candidate row if there is one.
\<close>

definition internal_error :: "string \<Rightarrow> state \<Rightarrow> response \<times> state" where
  "internal_error line s =
     (json_error 500 ''Internal server error'', s\<lparr>console_error := console_error s @ [line]\<rparr>)"

definition raw_usage_metadata :: "json \<Rightarrow> json \<Rightarrow> string \<Rightarrow> json" where
  "raw_usage_metadata sv sc result =
     JObj [(''service'', sv), (''scope'', sc), (''result'', JStr result)]"

definition validate_request ::
  "(string \<Rightarrow> string \<Rightarrow> string) \<Rightarrow> (string \<Rightarrow> int option) \<Rightarrow> validate_env \<Rightarrow> raw_validate_body
   \<Rightarrow> state \<Rightarrow> response \<times> state"
where
  "validate_request scrypt parseDate env body s =
     (if js_falsy (raw_apiKey body) \<or> js_falsy (raw_scope body) \<or> js_falsy (raw_service body) then
        (json_error 400 ''apiKey, scope, and service are required'', s)
      else
        let sc = json_or_null (raw_scope body); sv = json_or_null (raw_service body)
        in case includes_colon_call sc of
             None \<Rightarrow> internal_error ''Error validating API key:'' s
           | Some False \<Rightarrow> (json_error 400 msg_scope_format, s)
           | Some True \<Rightarrow>
               (case json_or_null (raw_apiKey body) of
                  JStr presented \<Rightarrow>
                    (case findKey scrypt presented (candidates s) of
                       None \<Rightarrow>
                         (denied ''Invalid API key'',
                          validate_log env None (raw_usage_metadata sv sc ''invalid_key'') s)
                     | Some keyData \<Rightarrow>
                         if ak_status keyData \<noteq> ''active'' then
                           (denied ''API key is revoked'',
                            validate_log env (Some (ak_id keyData))
                              (raw_usage_metadata sv sc ''revoked'') s)
                         else if expiration_passed parseDate (date_now env)
                                   (ak_expiration keyData) then
                           (denied ''API key has expired'',
                            validate_log env (Some (ak_id keyData))
                              (raw_usage_metadata sv sc ''expired'') s)
                         else if \<not> array_includes (ak_scopes keyData) sc then
                           (denied ''Insufficient scope'',
                            validate_log env (Some (ak_id keyData))
                              (raw_usage_metadata sv sc ''insufficient_scope'') s)
                         else
                           (json_ok (JObj
                              [(''allowed'', JBool True),
                               (''metadata'', JObj
                                  [(''keyId'', JNum (int (ak_id keyData))),
                                   (''owner'', JStr (ak_owner keyData)),
                                   (''scopes'', JArr (ak_scopes keyData)),
                                   (''service'', sv),
                                   (''validatedAt'', JStr (date_iso env))])]),
                            validate_log env (Some (ak_id keyData))
                              (raw_usage_metadata sv sc ''allowed'') s))
                | other \<Rightarrow>
                    if candidates s = [] then
                      (denied ''Invalid API key'',
                       validate_log env None (raw_usage_metadata sv sc ''invalid_key'') s)
                    else internal_error ''Error validating API key:'' s))"

text \<open>A body of string fields as a body of JSON fields.\<close>

definition as_raw :: "validate_body \<Rightarrow> raw_validate_body" where
  "as_raw body =
     \<lparr>raw_apiKey = map_option JStr (apiKey body), raw_scope = map_option JStr (scope body),
      raw_service = map_option JStr (service body)\<rparr>"

section \<open>The service as a whole\<close>



section \<open>Store invariant and soft deletion\<close>






section \<open>Secrets\<close>




section \<open>The validation algorithm of the specification\<close>

text \<open>
  The seven steps of the specification, in its words: load the rows that are not
  soft-deleted; take the first whose stored verifier equals the verifier recomputed from
  the presented secret and the row's salt; no match is \<open>invalid_key\<close>; a status other than
  \<open>active\<close> is \<open>revoked\<close>; an expiration that is set and strictly before the current time is
  \<open>expired\<close>; a required scope outside the scopes is \<open>insufficient_scope\<close>; otherwise the
  call is allowed, with the metadata.
\<close>

datatype reason = invalid_key | revoked | expired | insufficient_scope

datatype decision = Allowed json | Denied reason

definition validate_spec ::
  "(string \<Rightarrow> string \<Rightarrow> string) \<Rightarrow> (string \<Rightarrow> int option) \<Rightarrow> int \<Rightarrow> string
   \<Rightarrow> string \<Rightarrow> string \<Rightarrow> string \<Rightarrow> state \<Rightarrow> decision"
where
  "validate_spec kdf parseDate now validatedAt presentedSecret requiredScope serviceName s =
     (let candidates = filter (\<lambda>r. ak_deleted_at r = None) (api_keys s)
      in case find (\<lambda>r. ak_key_hash r = kdf presentedSecret (ak_salt r)) candidates of
           None \<Rightarrow> Denied invalid_key
         | Some r \<Rightarrow>
             if ak_status r \<noteq> ''active'' then Denied revoked
             else if (case ak_expiration r of
                        None \<Rightarrow> False
                      | Some e \<Rightarrow> (case parseDate e of None \<Rightarrow> False | Some t \<Rightarrow> t < now))
               then Denied expired
             else if JStr requiredScope \<notin> set (ak_scopes r) then Denied insufficient_scope
             else Allowed (JObj [(''keyId'', JNum (int (ak_id r))),
                                 (''owner'', JStr (ak_owner r)),
                                 (''scopes'', JArr (ak_scopes r)),
                                 (''service'', JStr serviceName),
                                 (''validatedAt'', JStr validatedAt)]))"

fun reason_text :: "reason \<Rightarrow> string" where
  "reason_text invalid_key = ''Invalid API key''"
| "reason_text revoked = ''API key is revoked''"
| "reason_text expired = ''API key has expired''"
| "reason_text insufficient_scope = ''Insufficient scope''"

fun decision_response :: "decision \<Rightarrow> response" where
  "decision_response (Allowed metadata) =
     json_ok (JObj [(''allowed'', JBool True), (''metadata'', metadata)])"
| "decision_response (Denied r) =
     json_ok (JObj [(''allowed'', JBool False), (''reason'', JStr (reason_text r))])"

text \<open>
  The preconditions of a validation call, as the handler checks them: the three fields
  are truthy and the scope passes the format check.
\<close>

definition passes_input_validation :: "validate_body \<Rightarrow> bool" where
  "passes_input_validation body =
     (\<not> falsy (apiKey body) \<and> \<not> falsy (scope body) \<and> \<not> falsy (service body)
      \<and> scope_includes_colon (str (scope body)))"

text \<open>
  The preconditions of a validation call in the words of the specification: the three
  arguments are non-empty and the scope is well-formed.
\<close>

definition meets_preconditions_spec :: "validate_body \<Rightarrow> bool" where
  "meets_preconditions_spec body =
     (str (apiKey body) \<noteq> [] \<and> str (scope body) \<noteq> [] \<and> str (service body) \<noteq> []
      \<and> isWellFormed_spec (str (scope body)))"

section \<open>Example data\<close>

text \<open>
  A store with one key, and stand-ins for the two external functions, on which the
  theorems below are instantiated.
\<close>

definition example_scrypt :: "string \<Rightarrow> string \<Rightarrow> string" where
  "example_scrypt key salt = salt @ ''$'' @ key"

definition example_parseDate :: "string \<Rightarrow> int option" where
  "example_parseDate text =
     (if text = ''2024-12-31T23:59:59Z'' then Some 1735689599000
      else if text = ''2030-01-01T00:00:00Z'' then Some 1893456000000
      else None)"

definition example_key :: api_key where
  "example_key =
     \<lparr>ak_id = 1, ak_key_hash = ''s1$k1'', ak_salt = ''s1'', ak_status = ''active'',
      ak_expiration = None, ak_created_at = ''2025-01-01T00:00:00.000Z'',
      ak_updated_at = ''2025-01-01T00:00:00.000Z'', ak_deleted_at = None,
      ak_scopes = [JStr ''orders:read''], ak_owner = ''test-user''\<rparr>"

definition example_state :: state where
  "example_state =
     \<lparr>api_keys = [example_key], api_keys_seq = 1, usage_records = [], usage_records_seq = 0,
      console_error = []\<rparr>"

definition example_env :: validate_env where
  "example_env =
     \<lparr>req_ip = ''::1'', req_user_agent = ''curl'', date_now = 1750000000000,
      date_iso = ''2025-06-15T15:06:40.000Z'', db_timestamp = ''2025-06-15 15:06:40'',
      usage_insert_fails = False\<rparr>"

definition example_body :: validate_body where
  "example_body =
     \<lparr>apiKey = Some ''k1'', scope = Some ''orders:read'', service = Some ''order-service''\<rparr>"

text \<open>The same store after the key was soft-deleted.\<close>

definition example_deleted_key :: api_key where
  "example_deleted_key =
     example_key\<lparr>ak_deleted_at := Some ''2025-02-01T00:00:00.000Z'',
                  ak_updated_at := ''2025-02-01T00:00:00.000Z''\<rparr>"

definition example_deleted_state :: state where
  "example_deleted_state = example_state\<lparr>api_keys := [example_deleted_key]\<rparr>"

text \<open>The body of a creation request.\<close>

definition example_create_body :: create_body where
  "example_create_body =
     \<lparr>owner = Some ''test-user'', scopes = Some (JArr [JStr ''orders:read'']),
      expiration = None\<rparr>"




section \<open>Properties of the scope format check\<close>

lemma js_includes_single: "js_includes s [c] \<longleftrightarrow> c \<in> set s"
  by (induction s) auto

text \<open>
  What the two checks of the code compute. The check on a string element of the scopes
  array at creation and the check on the scope argument of a validation call are the same
  predicate, true exactly when the string contains a \<open>:\<close> somewhere.
\<close>

lemma scope_check_iff_contains_colon:
  "scope_element_ok (JStr s) = scope_includes_colon s
   \<and> (scope_includes_colon s \<longleftrightarrow> (\<exists>before after. s = before @ '':'' @ after))"
proof -
  have "scope_includes_colon s \<longleftrightarrow> CHR '':'' \<in> set s"
    by (simp add: scope_includes_colon_def js_includes_single)
  also have "\<dots> \<longleftrightarrow> (\<exists>before after. s = before @ '':'' @ after)"
    by (auto simp: in_set_conv_decomp)
  finally show ?thesis
    by (simp add: scope_includes_colon_def)
qed

text \<open>Every well-formed scope passes the checks: the claim holds in this direction.\<close>

lemma well_formed_scope_passes: "isWellFormed_spec s \<Longrightarrow> scope_includes_colon s"
  by (simp add: isWellFormed_spec_def scope_includes_colon_def js_includes_single)

text \<open>
  Claim C2 says that the check is true if and only if the string has a \<open>:\<close> with a
  non-empty part before the first \<open>:\<close> and a non-empty part after it, which is the format
  \<open>resource:action\<close> that the handler's comment and its error messages name. The code
  does not do this: the strings \<open>:\<close>, \<open>a:\<close> and \<open>:b\<close> are not well-formed, yet each passes
  both checks, and a key is issued with the scope \<open>:\<close>.
\<close>

theorem scope_check_accepts_empty_sides:
  "\<not> isWellFormed_spec '':'' \<and> scope_includes_colon '':'' \<and> scope_element_ok (JStr '':'')
   \<and> \<not> isWellFormed_spec ''a:'' \<and> scope_includes_colon ''a:'' \<and> scope_element_ok (JStr ''a:'')
   \<and> \<not> isWellFormed_spec '':b'' \<and> scope_includes_colon '':b'' \<and> scope_element_ok (JStr '':b'')
   \<and> res_status (fst (create_api_key example_scrypt ''k2'' ''s2'' ''2025-06-01T00:00:00.000Z''
         (example_create_body\<lparr>scopes := Some (JArr [JStr '':''])\<rparr>) example_state)) = 201"
  by (simp add: scope_includes_colon_def isWellFormed_spec_def create_api_key_def
      example_create_body_def falsy_def accepted_scopes_def Let_def)

section \<open>The validation decision\<close>

lemma findKey_find:
  "findKey kdf p ks = find (\<lambda>r. ak_key_hash r = kdf p (ak_salt r)) ks"
  by (induction ks) auto

lemma expiration_passed_spec:
  "parseDate [] = None \<Longrightarrow>
   expiration_passed parseDate now e =
     (case e of None \<Rightarrow> False
      | Some x \<Rightarrow> (case parseDate x of None \<Rightarrow> False | Some t \<Rightarrow> t < now))"
  by (auto simp: expiration_passed_def falsy_def str_def split: option.splits)

text \<open>
  Claim C1. For a validation call that passes the input checks, the response of
  \<open>POST /validate\<close> is the decision of the specification's seven-step algorithm, rendered
  as JSON. In particular, when the response is "Insufficient scope", a row matched, its
  status is \<open>active\<close> and its expiration has not passed. \<open>new Date('')\<close> is an Invalid Date,
  which is the hypothesis on \<open>parseDate\<close>.
\<close>

theorem validate_refines_reference:
  assumes "passes_input_validation body" and "parseDate [] = None"
  shows "fst (validate kdf parseDate env body s) =
         decision_response
           (validate_spec kdf parseDate (date_now env) (date_iso env)
              (str (apiKey body)) (str (scope body)) (str (service body)) s)
         \<and> (fst (validate kdf parseDate env body s) = denied ''Insufficient scope'' \<longrightarrow>
              (\<exists>keyData.
                 findKey kdf (str (apiKey body)) (candidates s) = Some keyData
                 \<and> ak_status keyData = ''active''
                 \<and> \<not> expiration_passed parseDate (date_now env) (ak_expiration keyData)
                 \<and> JStr (str (scope body)) \<notin> set (ak_scopes keyData)))"
proof -
  note ex = expiration_passed_spec [of parseDate, OF assms(2)]
  have pre: "\<not> falsy (apiKey body)" "\<not> falsy (scope body)" "\<not> falsy (service body)"
    "scope_includes_colon (str (scope body))"
    using assms(1) by (simp_all add: passes_input_validation_def)
  have refines: "fst (validate kdf parseDate env body s) =
         decision_response
           (validate_spec kdf parseDate (date_now env) (date_iso env)
              (str (apiKey body)) (str (scope body)) (str (service body)) s)"
    using pre
    by (simp add: validate_def validate_spec_def candidates_def findKey_find ex denied_def
        Let_def split: option.splits)
  have order: "fst (validate kdf parseDate env body s) = denied ''Insufficient scope'' \<longrightarrow>
              (\<exists>keyData.
                 findKey kdf (str (apiKey body)) (candidates s) = Some keyData
                 \<and> ak_status keyData = ''active''
                 \<and> \<not> expiration_passed parseDate (date_now env) (ak_expiration keyData)
                 \<and> JStr (str (scope body)) \<notin> set (ak_scopes keyData))"
    using pre
    by (simp add: validate_def denied_def json_ok_def Let_def split: option.splits)
  from refines order show ?thesis by blast
qed


theorem validate_refines_reference_witness:
  "passes_input_validation example_body \<and> example_parseDate [] = None
   \<and> fst (validate example_scrypt example_parseDate example_env example_body example_state) =
       decision_response (Allowed (JObj
         [(''keyId'', JNum 1), (''owner'', JStr ''test-user''),
          (''scopes'', JArr [JStr ''orders:read'']), (''service'', JStr ''order-service''),
          (''validatedAt'', JStr ''2025-06-15T15:06:40.000Z'')]))"
proof -
  have a: "passes_input_validation example_body"
    by (simp add: passes_input_validation_def example_body_def falsy_def str_def
        scope_includes_colon_def)
  have b: "example_parseDate [] = None"
    by (simp add: example_parseDate_def)
  have c: "validate_spec example_scrypt example_parseDate (date_now example_env)
             (date_iso example_env) (str (apiKey example_body)) (str (scope example_body))
             (str (service example_body)) example_state =
           Allowed (JObj
         [(''keyId'', JNum 1), (''owner'', JStr ''test-user''),
          (''scopes'', JArr [JStr ''orders:read'']), (''service'', JStr ''order-service''),
          (''validatedAt'', JStr ''2025-06-15T15:06:40.000Z'')])"
    by (simp add: validate_spec_def example_state_def example_key_def example_scrypt_def
        example_body_def example_env_def str_def)
  from validate_refines_reference [of example_body example_parseDate example_scrypt example_env
      example_state, OF a b] a b c
  show ?thesis by simp
qed

section \<open>Revocation and soft deletion\<close>

lemma sql_update_none:
  "\<forall>r\<in>set rows. \<not> cond r \<Longrightarrow> sql_update cond upd rows = (rows, 0)"
  by (induction rows) (auto simp: sql_update_def)

text \<open>
  Claim C3, as the code has it. The UPDATE of \<open>PATCH /api-keys/:id\<close> selects rows by id
  alone. For an id that no row has, the handler answers 404 and the store is unchanged.
  For an id that a row has, soft-deleted or not, it answers 200 and sets \<open>status\<close> to
  \<open>revoked\<close> and \<open>updated_at\<close> on that row. The response does not depend on any
  \<open>deleted_at\<close> value in the store.
\<close>

theorem revoke_by_id_only:
  "(i \<notin> ak_id ` set (api_keys s) \<longrightarrow>
      revoke_api_key now i (Some ''revoked'') s = (json_error 404 ''API key not found'', s))
   \<and> (i \<in> ak_id ` set (api_keys s) \<longrightarrow>
      revoke_api_key now i (Some ''revoked'') s =
        (json_ok (JObj [(''id'', JNum (int i)), (''status'', JStr ''revoked''),
                        (''updated_at'', JStr now)]),
         s\<lparr>api_keys := map (\<lambda>k. if ak_id k = i
                                  then k\<lparr>ak_status := ''revoked'', ak_updated_at := now\<rparr>
                                  else k) (api_keys s)\<rparr>))
   \<and> fst (revoke_api_key now i status
            (s\<lparr>api_keys := map (\<lambda>k. k\<lparr>ak_deleted_at := d k\<rparr>) (api_keys s)\<rparr>)) =
       fst (revoke_api_key now i status s)"
proof (intro conjI impI)
  assume absent: "i \<notin> ak_id ` set (api_keys s)"
  then have "sql_update (\<lambda>k. ak_id k = i)
               (\<lambda>k. k\<lparr>ak_status := ''revoked'', ak_updated_at := now\<rparr>) (api_keys s) =
             (api_keys s, 0)"
    by (intro sql_update_none) auto
  then show "revoke_api_key now i (Some ''revoked'') s = (json_error 404 ''API key not found'', s)"
    by (simp add: revoke_api_key_def)
next
  assume present: "i \<in> ak_id ` set (api_keys s)"
  then have "filter (\<lambda>k. ak_id k = i) (api_keys s) \<noteq> []"
    by (auto simp: filter_empty_conv)
  then show "revoke_api_key now i (Some ''revoked'') s =
        (json_ok (JObj [(''id'', JNum (int i)), (''status'', JStr ''revoked''),
                        (''updated_at'', JStr now)]),
         s\<lparr>api_keys := map (\<lambda>k. if ak_id k = i
                                  then k\<lparr>ak_status := ''revoked'', ak_updated_at := now\<rparr>
                                  else k) (api_keys s)\<rparr>)"
    by (simp add: revoke_api_key_def sql_update_def)
next
  have "filter (\<lambda>k. ak_id k = i) (map (\<lambda>k. k\<lparr>ak_deleted_at := d k\<rparr>) (api_keys s)) =
        map (\<lambda>k. k\<lparr>ak_deleted_at := d k\<rparr>) (filter (\<lambda>k. ak_id k = i) (api_keys s))"
    by (simp add: filter_map comp_def)
  then show "fst (revoke_api_key now i status
            (s\<lparr>api_keys := map (\<lambda>k. k\<lparr>ak_deleted_at := d k\<rparr>) (api_keys s)\<rparr>)) =
       fst (revoke_api_key now i status s)"
    by (simp add: revoke_api_key_def sql_update_def Let_def)
qed

text \<open>
  Claim C3 as stated fails: on a store whose only row, with id 1, is soft-deleted,
  revoking id 1 answers 200 and rewrites the row's status and \<open>updated_at\<close>.
\<close>

theorem revoke_soft_deleted_counterexample:
  "ak_deleted_at example_deleted_key \<noteq> None
   \<and> example_deleted_key \<in> set (api_keys example_deleted_state)
   \<and> res_status (fst (revoke_api_key ''2025-03-01T00:00:00.000Z'' 1 (Some ''revoked'')
        example_deleted_state)) = 200
   \<and> api_keys (snd (revoke_api_key ''2025-03-01T00:00:00.000Z'' 1 (Some ''revoked'')
        example_deleted_state)) =
      [example_deleted_key\<lparr>ak_status := ''revoked'',
         ak_updated_at := ''2025-03-01T00:00:00.000Z''\<rparr>]
   \<and> snd (revoke_api_key ''2025-03-01T00:00:00.000Z'' 1 (Some ''revoked'')
        example_deleted_state) \<noteq> example_deleted_state"
  by (simp add: revoke_api_key_def sql_update_def example_deleted_state_def
      example_deleted_key_def example_state_def example_key_def json_ok_def)

theorem revoke_by_id_only_witness:
  "1 \<in> ak_id ` set (api_keys example_deleted_state)
   \<and> 2 \<notin> ak_id ` set (api_keys example_deleted_state)
   \<and> ak_deleted_at example_deleted_key \<noteq> None
   \<and> revoke_api_key ''2025-03-01T00:00:00.000Z'' 2 (Some ''revoked'') example_deleted_state =
       (json_error 404 ''API key not found'', example_deleted_state)
   \<and> fst (revoke_api_key ''2025-03-01T00:00:00.000Z'' 1 (Some ''revoked'') example_deleted_state) =
       json_ok (JObj [(''id'', JNum 1), (''status'', JStr ''revoked''),
                      (''updated_at'', JStr ''2025-03-01T00:00:00.000Z'')])"
proof -
  have a: "1 \<in> ak_id ` set (api_keys example_deleted_state)"
    and b: "2 \<notin> ak_id ` set (api_keys example_deleted_state)"
    and e: "ak_deleted_at example_deleted_key \<noteq> None"
    by (simp_all add: example_deleted_state_def example_deleted_key_def example_key_def)
  from revoke_by_id_only [where s = example_deleted_state and i = 2
      and now = "''2025-03-01T00:00:00.000Z''"] b
  have c: "revoke_api_key ''2025-03-01T00:00:00.000Z'' 2 (Some ''revoked'') example_deleted_state =
       (json_error 404 ''API key not found'', example_deleted_state)"
    by blast
  from revoke_by_id_only [where s = example_deleted_state and i = 1
      and now = "''2025-03-01T00:00:00.000Z''"] a
  have d: "fst (revoke_api_key ''2025-03-01T00:00:00.000Z'' 1 (Some ''revoked'') example_deleted_state) =
       json_ok (JObj [(''id'', JNum 1), (''status'', JStr ''revoked''),
                      (''updated_at'', JStr ''2025-03-01T00:00:00.000Z'')])"
    by simp
  from a b c d e show ?thesis by blast
qed


text \<open>
  Claim C8. \<open>DELETE /api-keys/:id\<close> sets \<open>deleted_at\<close> and \<open>updated_at\<close> on the rows with the
  id whose \<open>deleted_at\<close> is unset, and on no other row, and answers 200; when there is
  no such row (the id is absent, or its row is already soft-deleted) it answers 404 and
  the store is unchanged. Deleting the same id a second time therefore answers 404 and
  changes nothing.
\<close>

theorem delete_only_live_rows:
  "delete_api_key now i s =
     (if \<exists>k\<in>set (api_keys s). ak_id k = i \<and> ak_deleted_at k = None
      then (json_ok (JObj [(''id'', JNum (int i)), (''deleted_at'', JStr now)]),
            s\<lparr>api_keys := map (\<lambda>k. if ak_id k = i \<and> ak_deleted_at k = None
                                     then k\<lparr>ak_deleted_at := Some now, ak_updated_at := now\<rparr>
                                     else k) (api_keys s)\<rparr>)
      else (json_error 404 ''API key not found or already deleted'', s))
   \<and> delete_api_key now' i (snd (delete_api_key now i s)) =
       (json_error 404 ''API key not found or already deleted'', snd (delete_api_key now i s))"
proof -
  let ?live = "\<lambda>k. ak_id k = i \<and> ak_deleted_at k = None"
  have first: "delete_api_key t i s' =
     (if \<exists>k\<in>set (api_keys s'). ?live k
      then (json_ok (JObj [(''id'', JNum (int i)), (''deleted_at'', JStr t)]),
            s'\<lparr>api_keys := map (\<lambda>k. if ?live k
                                     then k\<lparr>ak_deleted_at := Some t, ak_updated_at := t\<rparr>
                                     else k) (api_keys s')\<rparr>)
      else (json_error 404 ''API key not found or already deleted'', s'))" for t s'
  proof (cases "\<exists>k\<in>set (api_keys s'). ?live k")
    case True
    then have "filter ?live (api_keys s') \<noteq> []"
      by (simp add: filter_empty_conv)
    with True show ?thesis
      by (simp add: delete_api_key_def sql_update_def)
  next
    case False
    then have "sql_update ?live (\<lambda>k. k\<lparr>ak_deleted_at := Some t, ak_updated_at := t\<rparr>)
                 (api_keys s') = (api_keys s', 0)"
      by (intro sql_update_none) simp
    then have "delete_api_key t i s' =
        (json_error 404 ''API key not found or already deleted'', s')"
      by (simp add: delete_api_key_def)
    with False show ?thesis
      by presburger
  qed
  have gone: "\<not> (\<exists>k\<in>set (api_keys (snd (delete_api_key now i s))). ?live k)"
    by (auto simp: first [of now s])
  show ?thesis
    using first [of now s] first [of now' "snd (delete_api_key now i s)"] gone
    by presburger
qed

theorem delete_only_live_rows_witness:
  "delete_api_key ''2025-03-01T00:00:00.000Z'' 1 example_state =
     (json_ok (JObj [(''id'', JNum 1), (''deleted_at'', JStr ''2025-03-01T00:00:00.000Z'')]),
      example_state\<lparr>api_keys :=
        [example_key\<lparr>ak_deleted_at := Some ''2025-03-01T00:00:00.000Z'',
                      ak_updated_at := ''2025-03-01T00:00:00.000Z''\<rparr>]\<rparr>)
   \<and> fst (delete_api_key ''2025-03-02T00:00:00.000Z'' 1
        (snd (delete_api_key ''2025-03-01T00:00:00.000Z'' 1 example_state))) =
       json_error 404 ''API key not found or already deleted''
   \<and> delete_api_key ''2025-03-01T00:00:00.000Z'' 2 example_state =
       (json_error 404 ''API key not found or already deleted'', example_state)"
proof -
  let ?t1 = "''2025-03-01T00:00:00.000Z''" and ?t2 = "''2025-03-02T00:00:00.000Z''"
  have one: "api_keys example_state = [example_key]" "ak_id example_key = 1"
    "ak_deleted_at example_key = None"
    by (simp_all add: example_state_def example_key_def)
  have a: "delete_api_key ?t1 1 example_state =
     (json_ok (JObj [(''id'', JNum 1), (''deleted_at'', JStr ?t1)]),
      example_state\<lparr>api_keys :=
        [example_key\<lparr>ak_deleted_at := Some ?t1, ak_updated_at := ?t1\<rparr>]\<rparr>)"
    using delete_only_live_rows [of ?t1 1 example_state ?t2, THEN conjunct1]
    by (simp add: one)
  have b: "fst (delete_api_key ?t2 1 (snd (delete_api_key ?t1 1 example_state))) =
       json_error 404 ''API key not found or already deleted''"
    using delete_only_live_rows [of ?t1 1 example_state ?t2, THEN conjunct2]
    by (simp only: fst_conv)
  have c: "delete_api_key ?t1 2 example_state =
       (json_error 404 ''API key not found or already deleted'', example_state)"
    using delete_only_live_rows [of ?t1 2 example_state ?t2, THEN conjunct1]
    by (simp add: one)
  from a b c show ?thesis by blast
qed

section \<open>Usage records of a validation\<close>

lemma validate_rejected:
  "\<not> passes_input_validation body \<Longrightarrow>
   validate kdf parseDate env body s =
     (if falsy (apiKey body) \<or> falsy (scope body) \<or> falsy (service body)
      then json_error 400 ''apiKey, scope, and service are required''
      else json_error 400 msg_scope_format, s)"
  by (auto simp: validate_def passes_input_validation_def)

lemma validate_logs_once:
  assumes "passes_input_validation body"
  shows "\<exists>result \<in> set usage_results.
           snd (validate kdf parseDate env body s) =
             validate_log env
               (map_option ak_id (findKey kdf (str (apiKey body)) (candidates s)))
               (usage_metadata (str (service body)) (str (scope body)) result) s"
  using assms
  by (simp add: validate_def passes_input_validation_def candidates_def usage_results_def
      Let_def split: option.splits)

text \<open>
  What the handler does under its own two checks. A call that passes them calls
  \<open>logUsage\<close> exactly once, whichever of the five outcomes occurs: the state after the call
  is the state before with that one call applied, its \<open>result\<close> being one of the five. When
  the store accepts the INSERT, \<open>usage_records\<close> grows by exactly one row, whose
  \<open>api_key_id\<close> is null if and only if no candidate row matched. A call that fails one of
  the two checks is answered 400 without reading or changing the store: the state is
  unchanged and the response is the same over every store.
\<close>

lemma validate_usage_write:
  "(passes_input_validation body \<longrightarrow>
      (\<exists>result \<in> set usage_results.
         snd (validate kdf parseDate env body s) =
           logUsage (usage_insert_fails env) (db_timestamp env)
             (map_option ak_id (findKey kdf (str (apiKey body)) (candidates s)))
             ''validate'' ''/validate'' (req_ip env) (req_user_agent env)
             (usage_metadata (str (service body)) (str (scope body)) result) s)
      \<and> (\<not> usage_insert_fails env \<longrightarrow>
           (\<exists>r. usage_records (snd (validate kdf parseDate env body s)) = usage_records s @ [r]
              \<and> (ur_api_key_id r = None \<longleftrightarrow>
                   findKey kdf (str (apiKey body)) (candidates s) = None))))
   \<and> (\<not> passes_input_validation body \<longrightarrow>
        snd (validate kdf parseDate env body s) = s
        \<and> res_status (fst (validate kdf parseDate env body s)) = 400
        \<and> fst (validate kdf parseDate env body s) = fst (validate kdf parseDate env body s0))"
proof (intro conjI impI)
  assume ok: "passes_input_validation body"
  from validate_logs_once [OF ok, of kdf parseDate env s]
  show "\<exists>result \<in> set usage_results.
         snd (validate kdf parseDate env body s) =
           logUsage (usage_insert_fails env) (db_timestamp env)
             (map_option ak_id (findKey kdf (str (apiKey body)) (candidates s)))
             ''validate'' ''/validate'' (req_ip env) (req_user_agent env)
             (usage_metadata (str (service body)) (str (scope body)) result) s"
    by (simp add: validate_log_def)
  assume "\<not> usage_insert_fails env"
  with validate_logs_once [OF ok, of kdf parseDate env s]
  show "\<exists>r. usage_records (snd (validate kdf parseDate env body s)) = usage_records s @ [r]
              \<and> (ur_api_key_id r = None \<longleftrightarrow>
                   findKey kdf (str (apiKey body)) (candidates s) = None)"
    by (auto simp: validate_log_def logUsage_def)
next
  assume bad: "\<not> passes_input_validation body"
  show "snd (validate kdf parseDate env body s) = s"
    by (simp add: validate_rejected [OF bad])
  show "res_status (fst (validate kdf parseDate env body s)) = 400"
    by (simp add: validate_rejected [OF bad] json_error_def)
  show "fst (validate kdf parseDate env body s) = fst (validate kdf parseDate env body s0)"
    by (simp add: validate_rejected [OF bad])
qed

text \<open>
  A call that meets the preconditions of the specification passes the two checks, so the
  first half of claim C4 holds of such calls.
\<close>

lemma meets_preconditions_passes:
  "meets_preconditions_spec body \<Longrightarrow> passes_input_validation body"
  by (auto simp: meets_preconditions_spec_def passes_input_validation_def falsy_def str_def
      well_formed_scope_passes split: option.splits)

text \<open>
  Claim C4 says that a call whose scope is not well-formed is rejected before any store
  access and writes no usage row. The code does not do this, by the defect of claim C2:
  its scope check asks only for a \<open>:\<close>. The call with scope \<open>:\<close> on the example store
  violates the precondition, yet the store is read, the key is matched, the answer is
  "Insufficient scope" and a usage row with the key's id is written; on the store without
  keys the same call is answered "Invalid API key".
\<close>

theorem validate_accepts_malformed_scope:
  "\<not> meets_preconditions_spec (example_body\<lparr>scope := Some '':''\<rparr>)
   \<and> validate example_scrypt example_parseDate example_env
        (example_body\<lparr>scope := Some '':''\<rparr>) example_state =
       (denied ''Insufficient scope'',
        example_state\<lparr>usage_records :=
          [\<lparr>ur_id = 1, ur_api_key_id = Some 1, ur_timestamp = ''2025-06-15 15:06:40'',
            ur_action = ''validate'', ur_endpoint = ''/validate'', ur_ip = ''::1'',
            ur_user_agent = ''curl'',
            ur_metadata =
              Some (usage_metadata ''order-service'' '':'' ''insufficient_scope'')\<rparr>],
          usage_records_seq := 1\<rparr>)
   \<and> fst (validate example_scrypt example_parseDate example_env
        (example_body\<lparr>scope := Some '':''\<rparr>) (example_state\<lparr>api_keys := []\<rparr>)) =
       denied ''Invalid API key''"
  by (simp add: meets_preconditions_spec_def isWellFormed_spec_def validate_def
      validate_log_def logUsage_def candidates_def example_body_def example_state_def
      example_key_def example_env_def example_scrypt_def example_parseDate_def falsy_def
      str_def scope_includes_colon_def expiration_passed_def Let_def)

text \<open>
  On string fields the handler over JSON fields is \<open>validate\<close>. With a number as
  \<open>apiKey\<close> the two checks pass, the store is read, and the call ends in the \<open>catch\<close>: 500
  and no usage row on a store with a candidate row, "Invalid API key" with a usage row on
  a store without one.
\<close>

lemma js_falsy_string: "js_falsy (map_option JStr x) = falsy x"
  by (cases x) (simp_all add: js_falsy_def falsy_def)

lemma json_or_null_string: "\<not> falsy x \<Longrightarrow> json_or_null (map_option JStr x) = JStr (str x)"
  by (cases x) (simp_all add: json_or_null_def falsy_def str_def)

lemma validate_request_strings:
  "validate_request kdf parseDate env (as_raw body) s = validate kdf parseDate env body s"
proof (cases "falsy (apiKey body) \<or> falsy (scope body) \<or> falsy (service body)")
  case True
  then show ?thesis
    by (auto simp: validate_request_def validate_def as_raw_def js_falsy_string)
next
  case False
  then show ?thesis
    by (simp add: validate_request_def validate_def as_raw_def js_falsy_string
        json_or_null_string scope_includes_colon_def raw_usage_metadata_def
        usage_metadata_def Let_def split: option.splits)
qed

lemma validate_request_number_key:
  "validate_request example_scrypt example_parseDate example_env
     \<lparr>raw_apiKey = Some (JNum 123), raw_scope = Some (JStr ''orders:read''),
      raw_service = Some (JStr ''order-service'')\<rparr> example_state =
     (json_error 500 ''Internal server error'',
      example_state\<lparr>console_error := [''Error validating API key:'']\<rparr>)
   \<and> fst (validate_request example_scrypt example_parseDate example_env
     \<lparr>raw_apiKey = Some (JNum 123), raw_scope = Some (JStr ''orders:read''),
      raw_service = Some (JStr ''order-service'')\<rparr> (example_state\<lparr>api_keys := []\<rparr>)) =
     denied ''Invalid API key''"
  by (simp add: validate_request_def js_falsy_def json_or_null_def internal_error_def
      candidates_def example_state_def example_key_def Let_def)

lemma validate_response_ignores_insert_failure:
  "fst (validate kdf parseDate (env\<lparr>usage_insert_fails := b\<rparr>) body s) =
   fst (validate kdf parseDate env body s)"
  by (simp add: validate_def Let_def split: option.splits)

text \<open>
  Claim C7. When the usage INSERT fails, the response of the validation is the one it
  would have been had the INSERT succeeded: the same decision, never an error response.
  The failure appears only as one line of the operational log; the tables are unchanged.
\<close>

theorem usage_failure_is_swallowed:
  "fst (validate kdf parseDate (env\<lparr>usage_insert_fails := True\<rparr>) body s) =
     fst (validate kdf parseDate (env\<lparr>usage_insert_fails := False\<rparr>) body s)
   \<and> res_status (fst (validate kdf parseDate (env\<lparr>usage_insert_fails := True\<rparr>) body s))
       \<in> {200, 400}
   \<and> snd (validate kdf parseDate (env\<lparr>usage_insert_fails := True\<rparr>) body s) =
       (if passes_input_validation body
        then s\<lparr>console_error := console_error s @ [''Error logging usage:'']\<rparr>
        else s)"
proof (intro conjI)
  show "fst (validate kdf parseDate (env\<lparr>usage_insert_fails := True\<rparr>) body s) =
     fst (validate kdf parseDate (env\<lparr>usage_insert_fails := False\<rparr>) body s)"
    by (simp add: validate_response_ignores_insert_failure)
  show "res_status (fst (validate kdf parseDate (env\<lparr>usage_insert_fails := True\<rparr>) body s))
       \<in> {200, 400}"
    by (simp add: validate_def Let_def denied_def json_ok_def json_error_def
        split: option.splits)
  show "snd (validate kdf parseDate (env\<lparr>usage_insert_fails := True\<rparr>) body s) =
       (if passes_input_validation body
        then s\<lparr>console_error := console_error s @ [''Error logging usage:'']\<rparr>
        else s)"
  proof (cases "passes_input_validation body")
    case True
    from validate_logs_once [OF True, of kdf parseDate "env\<lparr>usage_insert_fails := True\<rparr>" s]
    show ?thesis using True
      by (auto simp: validate_log_def logUsage_def)
  next
    case False
    then show ?thesis
      by (simp add: validate_rejected)
  qed
qed

theorem usage_failure_is_swallowed_witness:
  "fst (validate example_scrypt example_parseDate
          (example_env\<lparr>usage_insert_fails := True\<rparr>) example_body example_state) =
     json_ok (JObj [(''allowed'', JBool True),
       (''metadata'', JObj
         [(''keyId'', JNum 1), (''owner'', JStr ''test-user''),
          (''scopes'', JArr [JStr ''orders:read'']), (''service'', JStr ''order-service''),
          (''validatedAt'', JStr ''2025-06-15T15:06:40.000Z'')])])
   \<and> snd (validate example_scrypt example_parseDate
          (example_env\<lparr>usage_insert_fails := True\<rparr>) example_body example_state) =
       example_state\<lparr>console_error := [''Error logging usage:'']\<rparr>"
proof -
  have ok: "passes_input_validation example_body"
    by (simp add: passes_input_validation_def example_body_def falsy_def str_def
        scope_includes_colon_def)
  have res: "fst (validate example_scrypt example_parseDate
          (example_env\<lparr>usage_insert_fails := False\<rparr>) example_body example_state) =
     json_ok (JObj [(''allowed'', JBool True),
       (''metadata'', JObj
         [(''keyId'', JNum 1), (''owner'', JStr ''test-user''),
          (''scopes'', JArr [JStr ''orders:read'']), (''service'', JStr ''order-service''),
          (''validatedAt'', JStr ''2025-06-15T15:06:40.000Z'')])])"
    by (simp add: validate_def example_body_def example_state_def example_key_def
        example_env_def example_scrypt_def example_parseDate_def falsy_def str_def
        scope_includes_colon_def expiration_passed_def candidates_def Let_def)
  have log: "console_error example_state = []"
    by (simp add: example_state_def)
  from usage_failure_is_swallowed [of example_scrypt example_parseDate example_env
      example_body example_state] ok res log
  show ?thesis by simp
qed

section \<open>Soft-deleted keys at validation\<close>

lemma findKey_None_iff:
  "findKey kdf p ks = None \<longleftrightarrow> (\<forall>k\<in>set ks. kdf p (ak_salt k) \<noteq> ak_key_hash k)"
  by (induction ks) auto

lemma left_join_snoc:
  "left_join (urs @ [r]) aks = left_join urs aks @ left_join [r] aks"
  by (simp add: left_join_def)

lemma left_join_single_fst: "x \<in> set (left_join [r] aks) \<Longrightarrow> fst x = r"
  by (auto simp: left_join_def split: list.splits)

lemma usage_rows_other_id:
  assumes "ur_api_key_id r \<noteq> Some i"
  shows "usage_rows i (s\<lparr>usage_records := usage_records s @ [r], usage_records_seq := n\<rparr>) =
         usage_rows i s"
proof -
  have "filter (\<lambda>(ur, ak). ur_api_key_id ur = Some i) (left_join [r] (api_keys s)) = []"
    using assms by (auto simp: filter_empty_conv dest: left_join_single_fst)
  then show ?thesis
    by (simp add: usage_rows_def left_join_snoc)
qed

lemma usage_rows_console:
  "usage_rows i (s\<lparr>console_error := c\<rparr>) = usage_rows i s"
  by (simp add: usage_rows_def)

lemma usage_rows_validate_log:
  "a \<noteq> Some i \<Longrightarrow> usage_rows i (validate_log env a m s) = usage_rows i s"
  by (simp add: validate_log_def logUsage_def usage_rows_other_id usage_rows_console)

text \<open>
  Claim C9. Let a key be soft-deleted, in a store whose ids are distinct, and let a
  validation call present that key's secret, a secret that verifies against no other
  key. The call is answered \<open>allowed: false\<close> with reason "Invalid API key", its one
  usage write has \<open>api_key_id\<close> null, and the usage query for the key's id returns after
  the call what it returned before.
\<close>

theorem soft_deleted_key_is_invalid_key:
  assumes "passes_input_validation body"
    and "distinct (map ak_id (api_keys s))"
    and "k \<in> set (api_keys s)" and "ak_deleted_at k \<noteq> None"
    and "kdf (str (apiKey body)) (ak_salt k) = ak_key_hash k"
    and "\<forall>k'\<in>set (api_keys s).
           kdf (str (apiKey body)) (ak_salt k') = ak_key_hash k' \<longrightarrow> ak_id k' = ak_id k"
  shows "validate kdf parseDate env body s =
           (denied ''Invalid API key'',
            validate_log env None
              (usage_metadata (str (service body)) (str (scope body)) ''invalid_key'') s)
         \<and> (\<not> usage_insert_fails env \<longrightarrow>
              (\<exists>r. usage_records (snd (validate kdf parseDate env body s)) =
                      usage_records s @ [r] \<and> ur_api_key_id r = None))
         \<and> usage_rows (ak_id k) (snd (validate kdf parseDate env body s)) =
             usage_rows (ak_id k) s
         \<and> usage_api_key (ak_id k) (snd (validate kdf parseDate env body s)) =
             usage_api_key (ak_id k) s"
proof -
  have "kdf (str (apiKey body)) (ak_salt k') \<noteq> ak_key_hash k'" if "k' \<in> set (candidates s)" for k'
  proof
    assume match: "kdf (str (apiKey body)) (ak_salt k') = ak_key_hash k'"
    from that have in_store: "k' \<in> set (api_keys s)" and live: "ak_deleted_at k' = None"
      by (simp_all add: candidates_def)
    from assms(6) in_store match have "ak_id k' = ak_id k"
      by blast
    with assms(2,3) in_store have "k' = k"
      by (auto simp: distinct_map dest: inj_onD)
    with live assms(4) show False
      by simp
  qed
  then have none: "findKey kdf (str (apiKey body)) (candidates s) = None"
    by (simp add: findKey_None_iff)
  have v: "validate kdf parseDate env body s =
           (denied ''Invalid API key'',
            validate_log env None
              (usage_metadata (str (service body)) (str (scope body)) ''invalid_key'') s)"
    using assms(1) none
    by (simp add: validate_def passes_input_validation_def Let_def)
  have rows: "usage_rows (ak_id k) (snd (validate kdf parseDate env body s)) =
             usage_rows (ak_id k) s"
    by (simp add: v usage_rows_validate_log)
  have "usage_api_key (ak_id k) (snd (validate kdf parseDate env body s)) =
             usage_api_key (ak_id k) s"
    by (simp add: usage_api_key_def rows)
  moreover have "\<not> usage_insert_fails env \<longrightarrow>
              (\<exists>r. usage_records (snd (validate kdf parseDate env body s)) =
                      usage_records s @ [r] \<and> ur_api_key_id r = None)"
    by (simp add: v validate_log_def logUsage_def)
  ultimately show ?thesis
    using v rows by blast
qed


theorem soft_deleted_key_is_invalid_key_witness:
  "snd (delete_api_key ''2025-02-01T00:00:00.000Z'' 1 example_state) = example_deleted_state
   \<and> passes_input_validation example_body
   \<and> distinct (map ak_id (api_keys example_deleted_state))
   \<and> example_deleted_key \<in> set (api_keys example_deleted_state)
   \<and> ak_deleted_at example_deleted_key \<noteq> None
   \<and> example_scrypt (str (apiKey example_body)) (ak_salt example_deleted_key) =
       ak_key_hash example_deleted_key
   \<and> fst (validate example_scrypt example_parseDate example_env example_body
        example_deleted_state) = denied ''Invalid API key''
   \<and> usage_api_key 1 (snd (validate example_scrypt example_parseDate example_env example_body
        example_deleted_state)) = usage_api_key 1 example_deleted_state"
proof -
  have del: "snd (delete_api_key ''2025-02-01T00:00:00.000Z'' 1 example_state) =
      example_deleted_state"
    by (simp add: delete_api_key_def sql_update_def example_deleted_state_def
        example_deleted_key_def example_state_def example_key_def)
  have a: "passes_input_validation example_body"
    by (simp add: passes_input_validation_def example_body_def falsy_def str_def
        scope_includes_colon_def)
  have keys: "api_keys example_deleted_state = [example_deleted_key]"
    by (simp add: example_deleted_state_def)
  have b: "distinct (map ak_id (api_keys example_deleted_state))"
    and c: "example_deleted_key \<in> set (api_keys example_deleted_state)"
    by (simp_all add: keys)
  have d: "ak_deleted_at example_deleted_key \<noteq> None"
    and id1: "ak_id example_deleted_key = 1"
    by (simp_all add: example_deleted_key_def example_key_def)
  have e: "example_scrypt (str (apiKey example_body)) (ak_salt example_deleted_key) =
       ak_key_hash example_deleted_key"
    by (simp add: example_scrypt_def example_body_def str_def example_deleted_key_def
        example_key_def)
  have f: "\<forall>k'\<in>set (api_keys example_deleted_state).
           example_scrypt (str (apiKey example_body)) (ak_salt k') = ak_key_hash k' \<longrightarrow>
           ak_id k' = ak_id example_deleted_key"
    by (simp add: keys)
  note inst = soft_deleted_key_is_invalid_key [where kdf = example_scrypt
      and body = example_body and s = example_deleted_state and k = example_deleted_key
      and parseDate = example_parseDate and env = example_env, OF a b c d e f]
  from inst have "validate example_scrypt example_parseDate example_env example_body
        example_deleted_state =
      (denied ''Invalid API key'',
       validate_log example_env None
         (usage_metadata (str (service example_body)) (str (scope example_body))
            ''invalid_key'') example_deleted_state)"
    by (rule conjunct1)
  then have g: "fst (validate example_scrypt example_parseDate example_env example_body
        example_deleted_state) = denied ''Invalid API key''"
    by (simp only: fst_conv)
  from inst have "usage_api_key (ak_id example_deleted_key)
      (snd (validate example_scrypt example_parseDate example_env example_body
        example_deleted_state)) = usage_api_key (ak_id example_deleted_key) example_deleted_state"
    by blast
  then have h: "usage_api_key 1 (snd (validate example_scrypt example_parseDate example_env
      example_body example_deleted_state)) = usage_api_key 1 example_deleted_state"
    by (simp only: id1)
  from del a b c d e g h show ?thesis
    by blast
qed

section \<open>Expiration values\<close>

lemma findKey_map:
  assumes "\<And>k. ak_salt (g k) = ak_salt k" and "\<And>k. ak_key_hash (g k) = ak_key_hash k"
  shows "findKey kdf p (map g ks) = map_option g (findKey kdf p ks)"
  by (induction ks) (simp_all add: assms)

lemma candidates_drop_unparsed:
  "candidates (s\<lparr>api_keys := map (drop_unparsed_expiration parseDate) (api_keys s)\<rparr>) =
   map (drop_unparsed_expiration parseDate) (candidates s)"
proof -
  have "ak_deleted_at (drop_unparsed_expiration parseDate k) = ak_deleted_at k" for k
    by (simp add: drop_unparsed_expiration_def)
  then show ?thesis
    by (simp add: candidates_def filter_map comp_def)
qed

lemma expiration_passed_unparsed:
  "expiration_passed parseDate now (ak_expiration (drop_unparsed_expiration parseDate k)) =
   expiration_passed parseDate now (ak_expiration k)"
  by (simp add: drop_unparsed_expiration_def expiration_passed_def falsy_def)

lemma create_api_key_accepted:
  assumes "\<not> falsy (owner body)" and "accepted_scopes (scopes body) = Some scs"
  shows "res_status (fst (create_api_key kdf key salt now body s)) = 201"
    and "api_keys (snd (create_api_key kdf key salt now body s)) =
         api_keys s @
           [\<lparr>ak_id = Suc (api_keys_seq s), ak_key_hash = kdf key salt, ak_salt = salt,
             ak_status = ''active'', ak_expiration = or_null (expiration body),
             ak_created_at = now, ak_updated_at = now, ak_deleted_at = None,
             ak_scopes = scs, ak_owner = str (owner body)\<rparr>]"
  using assms by (simp_all add: create_api_key_def Let_def)

text \<open>
  Claim C10. Creation does not look at the expiration value: with an owner and accepted
  scopes, any non-empty expiration text is answered 201 and stored as it is, whatever it
  parses to. An expiration text that is not a date never counts as passed, and every
  validation answers as it would on the store in which those expirations are NULL.
\<close>

theorem expiration_is_not_validated:
  "(\<not> falsy (owner body) \<and> accepted_scopes (scopes body) = Some scs \<and> e \<noteq> [] \<longrightarrow>
      res_status (fst (create_api_key kdf key salt now (body\<lparr>expiration := Some e\<rparr>) s)) = 201
      \<and> (\<exists>row. api_keys (snd (create_api_key kdf key salt now (body\<lparr>expiration := Some e\<rparr>) s)) =
                  api_keys s @ [row]
              \<and> ak_expiration row = Some e))
   \<and> (parseDate e = None \<longrightarrow> \<not> expiration_passed parseDate t (Some e))
   \<and> fst (validate kdf parseDate env vbody s) =
       fst (validate kdf parseDate env vbody
              (s\<lparr>api_keys := map (drop_unparsed_expiration parseDate) (api_keys s)\<rparr>))"
proof (intro conjI impI)
  assume ok: "\<not> falsy (owner body) \<and> accepted_scopes (scopes body) = Some scs \<and> e \<noteq> []"
  then have pre: "\<not> falsy (owner (body\<lparr>expiration := Some e\<rparr>))"
    "accepted_scopes (scopes (body\<lparr>expiration := Some e\<rparr>)) = Some scs"
    by simp_all
  show "res_status (fst (create_api_key kdf key salt now (body\<lparr>expiration := Some e\<rparr>) s)) = 201"
    by (rule create_api_key_accepted(1) [OF pre])
  from ok show "\<exists>row. api_keys (snd (create_api_key kdf key salt now (body\<lparr>expiration := Some e\<rparr>) s)) =
                  api_keys s @ [row]
              \<and> ak_expiration row = Some e"
    by (simp add: create_api_key_accepted(2) [OF pre] or_null_def falsy_def)
next
  assume "parseDate e = None"
  then show "\<not> expiration_passed parseDate t (Some e)"
    by (simp add: expiration_passed_def str_def)
next
  let ?g = "drop_unparsed_expiration parseDate"
  have fk: "findKey kdf p (map ?g ks) = map_option ?g (findKey kdf p ks)" for p ks
    by (rule findKey_map) (simp_all add: drop_unparsed_expiration_def)
  have same: "ak_status (?g k) = ak_status k" "ak_scopes (?g k) = ak_scopes k"
    "ak_id (?g k) = ak_id k" "ak_owner (?g k) = ak_owner k" for k
    by (simp_all add: drop_unparsed_expiration_def)
  show "fst (validate kdf parseDate env vbody s) =
       fst (validate kdf parseDate env vbody (s\<lparr>api_keys := map ?g (api_keys s)\<rparr>))"
    by (simp add: validate_def candidates_drop_unparsed fk same expiration_passed_unparsed
        Let_def split: option.splits)
qed


theorem expiration_is_not_validated_witness:
  "res_status (fst (create_api_key example_scrypt ''k2'' ''s2'' ''2025-06-01T00:00:00.000Z''
       (example_create_body\<lparr>expiration := Some ''next week''\<rparr>) example_state)) = 201
   \<and> example_parseDate ''next week'' = None
   \<and> fst (validate example_scrypt example_parseDate example_env
        (example_body\<lparr>apiKey := Some ''k2''\<rparr>)
        (snd (create_api_key example_scrypt ''k2'' ''s2'' ''2025-06-01T00:00:00.000Z''
               (example_create_body\<lparr>expiration := Some ''next week''\<rparr>) example_state))) =
       json_ok (JObj [(''allowed'', JBool True),
         (''metadata'', JObj
           [(''keyId'', JNum 2), (''owner'', JStr ''test-user''),
            (''scopes'', JArr [JStr ''orders:read'']), (''service'', JStr ''order-service''),
            (''validatedAt'', JStr ''2025-06-15T15:06:40.000Z'')])])
   \<and> res_status (fst (create_api_key example_scrypt ''k2'' ''s2'' ''2025-06-01T00:00:00.000Z''
       (example_create_body\<lparr>expiration := Some ''2024-12-31T23:59:59Z''\<rparr>) example_state)) = 201
   \<and> fst (validate example_scrypt example_parseDate example_env
        (example_body\<lparr>apiKey := Some ''k2''\<rparr>)
        (snd (create_api_key example_scrypt ''k2'' ''s2'' ''2025-06-01T00:00:00.000Z''
               (example_create_body\<lparr>expiration := Some ''2024-12-31T23:59:59Z''\<rparr>)
               example_state))) =
       denied ''API key has expired''"
proof -
  let ?now = "''2025-06-01T00:00:00.000Z''"
  have pre: "\<not> falsy (owner example_create_body)
      \<and> accepted_scopes (scopes example_create_body) = Some [JStr ''orders:read'']
      \<and> ''next week'' \<noteq> []"
    "\<not> falsy (owner example_create_body)
      \<and> accepted_scopes (scopes example_create_body) = Some [JStr ''orders:read'']
      \<and> ''2024-12-31T23:59:59Z'' \<noteq> []"
    by (simp_all add: example_create_body_def falsy_def accepted_scopes_def)
  from pre(1) expiration_is_not_validated [where body = example_create_body
      and scs = "[JStr ''orders:read'']" and e = "''next week''" and kdf = example_scrypt
      and key = "''k2''" and salt = "''s2''" and now = ?now and s = example_state]
  have a: "res_status (fst (create_api_key example_scrypt ''k2'' ''s2'' ?now
       (example_create_body\<lparr>expiration := Some ''next week''\<rparr>) example_state)) = 201"
    by blast
  from pre(2) expiration_is_not_validated [where body = example_create_body
      and scs = "[JStr ''orders:read'']" and e = "''2024-12-31T23:59:59Z''"
      and kdf = example_scrypt and key = "''k2''" and salt = "''s2''" and now = ?now
      and s = example_state]
  have b: "res_status (fst (create_api_key example_scrypt ''k2'' ''s2'' ?now
       (example_create_body\<lparr>expiration := Some ''2024-12-31T23:59:59Z''\<rparr>) example_state)) = 201"
    by blast
  have c: "example_parseDate ''next week'' = None"
    by (simp add: example_parseDate_def)
  have d: "fst (validate example_scrypt example_parseDate example_env
        (example_body\<lparr>apiKey := Some ''k2''\<rparr>)
        (snd (create_api_key example_scrypt ''k2'' ''s2'' ?now
               (example_create_body\<lparr>expiration := Some ''next week''\<rparr>) example_state))) =
       json_ok (JObj [(''allowed'', JBool True),
         (''metadata'', JObj
           [(''keyId'', JNum 2), (''owner'', JStr ''test-user''),
            (''scopes'', JArr [JStr ''orders:read'']), (''service'', JStr ''order-service''),
            (''validatedAt'', JStr ''2025-06-15T15:06:40.000Z'')])])"
    by (simp add: validate_def create_api_key_def example_create_body_def example_body_def
        example_state_def example_key_def example_env_def example_scrypt_def
        example_parseDate_def falsy_def str_def or_null_def accepted_scopes_def
        scope_includes_colon_def expiration_passed_def candidates_def Let_def)
  have e: "fst (validate example_scrypt example_parseDate example_env
        (example_body\<lparr>apiKey := Some ''k2''\<rparr>)
        (snd (create_api_key example_scrypt ''k2'' ''s2'' ?now
               (example_create_body\<lparr>expiration := Some ''2024-12-31T23:59:59Z''\<rparr>)
               example_state))) =
       denied ''API key has expired''"
    by (simp add: validate_def create_api_key_def example_create_body_def example_body_def
        example_state_def example_key_def example_env_def example_scrypt_def
        example_parseDate_def falsy_def str_def or_null_def accepted_scopes_def
        scope_includes_colon_def expiration_passed_def candidates_def Let_def)
  from a b c d e show ?thesis
    by blast
qed

section \<open>Soft-deleted keys: invisible, still audited\<close>


































section \<open>Secrets and responses\<close>

































end
